theory Spec2Isabelle
  imports Main "HOL-Library.Word" "HOL-Library.Sublist" "HOL-Library.Multiset"
begin

section \<open>Destination classifier\<close>

text \<open>
  Go's \<^verbatim>\<open>strings.HasPrefix(s, prefix)\<close> is
  \<^verbatim>\<open>len(s) >= len(prefix) && s[:len(prefix)] == prefix\<close>; strings are byte sequences.
\<close>

definition HasPrefix :: "string \<Rightarrow> string \<Rightarrow> bool" where
  "HasPrefix s pre = (length pre \<le> length s \<and> take (length pre) s = pre)"

text \<open>The condition of the \<^verbatim>\<open>if\<close> in the loop body of \<^verbatim>\<open>separateOutputPaths\<close>.\<close>

definition isConsolePath :: "string \<Rightarrow> bool" where
  "isConsolePath path =
     (path = ''stdout'' \<or> path = ''stderr'' \<or>
      HasPrefix path ''file://stdout'' \<or>
      HasPrefix path ''file://stderr'')"

text \<open>
  The \<^verbatim>\<open>for _, path := range paths\<close> loop: both result slices start empty (nil) and
  grow by \<^verbatim>\<open>append\<close>.
\<close>

fun separateLoop :: "string list \<Rightarrow> string list \<Rightarrow> string list \<Rightarrow> string list \<times> string list" where
  "separateLoop [] consolePaths filePaths = (consolePaths, filePaths)"
| "separateLoop (path # rest) consolePaths filePaths =
     (if isConsolePath path
      then separateLoop rest (consolePaths @ [path]) filePaths
      else separateLoop rest consolePaths (filePaths @ [path]))"

definition separateOutputPaths :: "string list \<Rightarrow> string list \<times> string list" where
  "separateOutputPaths paths = separateLoop paths [] []"

section \<open>The logging library's cores\<close>

text \<open>
  \<^verbatim>\<open>zapcore.Level\<close> is an \<^verbatim>\<open>int8\<close>; a level enabler \<^verbatim>\<open>l\<close> enables \<^verbatim>\<open>lvl\<close> when
  \<^verbatim>\<open>lvl >= l\<close> (signed comparison).
\<close>

type_synonym Level = "8 word"

definition DebugLevel :: Level where "DebugLevel = - 1"
definition InfoLevel :: Level where "InfoLevel = 0"
definition WarnLevel :: Level where "WarnLevel = 1"
definition ErrorLevel :: Level where "ErrorLevel = 2"

datatype LevelEnabler = AtomicLevel Level | ConstLevel Level

fun LevelEnabled :: "LevelEnabler \<Rightarrow> Level \<Rightarrow> bool" where
  "LevelEnabled (AtomicLevel l) lvl = word_sle l lvl"
| "LevelEnabled (ConstLevel l) lvl = word_sle l lvl"

datatype TimeEncoder = EpochTimeEncoder | ISO8601TimeEncoder

record EncoderConfig =
  EncodeTime :: TimeEncoder

definition NewProductionEncoderConfig :: EncoderConfig where
  "NewProductionEncoderConfig = \<lparr>EncodeTime = EpochTimeEncoder\<rparr>"

datatype Encoder = NewJSONEncoder EncoderConfig | NewConsoleEncoder EncoderConfig

text \<open>
  Fields: \<^verbatim>\<open>zap.String(key, val)\<close>, \<^verbatim>\<open>zap.Any(key, val)\<close> (the value kept as its rendering)
  and \<^verbatim>\<open>zap.Dict(key, fields...)\<close>, a nested group.
\<close>

datatype Field = zap_String string string | zap_Any string string | zap_Dict string "Field list"

text \<open>
  Write syncers: the combined sink \<^verbatim>\<open>zap.Open(paths...)\<close> returns, and
  \<^verbatim>\<open>zapcore.AddSync(&lumberjack.Logger{Filename, MaxSize, MaxBackups, MaxAge, Compress})\<close>.
  A lumberjack logger opens its file at the first write, not when it is constructed.
\<close>

datatype WriteSyncer =
    Sinks "string list"
  | LumberjackLogger string int int int bool

text \<open>
  Cores: the no-op core, \<^verbatim>\<open>zapcore.NewCore(enc, ws, enab)\<close> together with the fields its
  encoder has accumulated through \<^verbatim>\<open>With\<close>, the fan-out of \<^verbatim>\<open>zapcore.NewTee\<close>, and
  \<^verbatim>\<open>zapcore.NewSamplerWithOptions(core, tick, first, thereafter)\<close>.
\<close>

datatype Core =
    NopCore
  | IOCore Encoder "Field list" WriteSyncer LevelEnabler
  | MultiCore "Core list"
  | Sampler Core int int int

definition NewCore :: "Encoder \<Rightarrow> WriteSyncer \<Rightarrow> LevelEnabler \<Rightarrow> Core" where
  "NewCore enc ws enab = IOCore enc [] ws enab"

text \<open>\<^verbatim>\<open>NewTee\<close> returns the no-op core for no cores and the core itself for a single one.\<close>

fun NewTee :: "Core list \<Rightarrow> Core" where
  "NewTee [] = NopCore"
| "NewTee [c] = c"
| "NewTee cores = MultiCore cores"

definition NewSamplerWithOptions :: "Core \<Rightarrow> int \<Rightarrow> int \<Rightarrow> int \<Rightarrow> Core" where
  "NewSamplerWithOptions c tick first thereafter = Sampler c tick first thereafter"

text \<open>
  \<^verbatim>\<open>Core.With(fields)\<close>: an IO core clones its encoder and adds the fields to it, a fan-out
  and a sampler pass the call on to the cores they hold.
\<close>

fun CoreWith :: "Core \<Rightarrow> Field list \<Rightarrow> Core" where
  "CoreWith NopCore fs = NopCore"
| "CoreWith (IOCore enc ctx ws enab) fs = IOCore enc (ctx @ fs) ws enab"
| "CoreWith (MultiCore cores) fs = MultiCore (map (\<lambda>c. CoreWith c fs) cores)"
| "CoreWith (Sampler c tick first thereafter) fs = Sampler (CoreWith c fs) tick first thereafter"

fun CoreEnabled :: "Core \<Rightarrow> Level \<Rightarrow> bool" where
  "CoreEnabled NopCore lvl = False"
| "CoreEnabled (IOCore enc ctx ws enab) lvl = LevelEnabled enab lvl"
| "CoreEnabled (MultiCore cores) lvl = list_ex (\<lambda>c. CoreEnabled c lvl) cores"
| "CoreEnabled (Sampler c tick first thereafter) lvl = CoreEnabled c lvl"

section \<open>Configuration\<close>

record LogsRotationConfig =
  MaxSizeMB :: int
  MaxBackups :: int
  MaxAgeDays :: int
  Compress :: bool

record LogsSamplingConfig =
  Enabled :: bool
  Tick :: int
  Initial :: int
  Thereafter :: int

text \<open>An export processor configuration is opaque here; it is only handed to the SDK.\<close>

type_synonym LogRecordProcessor = string

text \<open>
  \<^verbatim>\<open>InitialFields\<close> is a \<^verbatim>\<open>map[string]any\<close>; it is kept as its entries in key order, which
  is the order in which the logging library turns them into fields.
\<close>

record LogsConfig =
  Level :: Level
  Development :: bool
  Encoding :: string
  DisableCaller :: bool
  DisableStacktrace :: bool
  Sampling :: "LogsSamplingConfig option"
  OutputPaths :: "string list"
  ErrorOutputPaths :: "string list"
  InitialFields :: "(string \<times> string) list"
  Processors :: "LogRecordProcessor list"
  Rotation :: "LogsRotationConfig option"

record Config =
  Logs :: LogsConfig

text \<open>\<^verbatim>\<open>zap.Config\<close>, with the fields \<^verbatim>\<open>createLogger\<close> sets.\<close>

record zap_Config =
  zap_Level :: LevelEnabler
  zap_Development :: bool
  zap_Encoding :: string
  zap_EncoderConfig :: EncoderConfig
  zap_OutputPaths :: "string list"
  zap_ErrorOutputPaths :: "string list"
  zap_DisableCaller :: bool
  zap_DisableStacktrace :: bool
  zap_InitialFields :: "(string \<times> string) list"

text \<open>
  A resource is its attribute list (\<^verbatim>\<open>res.Attributes()\<close>); the attribute value type and its
  \<^verbatim>\<open>Emit\<close> rendering belong to the attribute library and are parameters.
\<close>

type_synonym 'v Resource = "(string \<times> 'v) list"

datatype error =
    EncoderError string
  | OpenSinkError "string list"
  | SDKError string

text \<open>
  What the assembly depends on outside the function: the rendering of attribute values,
  which destinations can be opened for writing, and whether the export SDK can be built
  from the processor list.
\<close>

record 'v Env =
  Emit :: "'v \<Rightarrow> string"
  canOpen :: "string \<Rightarrow> bool"
  sdkFailure :: "LogRecordProcessor list \<Rightarrow> error option"

section \<open>Building the base logger\<close>

record 'c Logger =
  core :: 'c
  errorOutput :: WriteSyncer
  development :: bool
  addCaller :: bool
  addStack :: "Level option"

text \<open>\<^verbatim>\<open>logger.WithOptions(zap.WrapCore(f))\<close>: a copy of the logger whose core is \<^verbatim>\<open>f(core)\<close>.\<close>

definition WrapCore :: "('c \<Rightarrow> 'd) \<Rightarrow> 'c Logger \<Rightarrow> 'd Logger" where
  "WrapCore f l =
     \<lparr>core = f (core l), errorOutput = errorOutput l, development = development l,
      addCaller = addCaller l, addStack = addStack l\<rparr>"

text \<open>
  \<^verbatim>\<open>zap.Config.Build\<close> with the library's own encoder registry (\<^verbatim>\<open>console\<close> and
  \<^verbatim>\<open>json\<close>) and no caller-supplied options. The encoder is chosen by name; an empty or
  unregistered name is an error.
\<close>

definition buildEncoder :: "zap_Config \<Rightarrow> error + Encoder" where
  "buildEncoder zc =
     (if zap_Encoding zc = '''' then Inl (EncoderError '''')
      else if zap_Encoding zc = ''console'' then Inr (NewConsoleEncoder (zap_EncoderConfig zc))
      else if zap_Encoding zc = ''json'' then Inr (NewJSONEncoder (zap_EncoderConfig zc))
      else Inl (EncoderError (zap_Encoding zc)))"

text \<open>
  \<^verbatim>\<open>zap.Open(paths...)\<close>: \<^verbatim>\<open>stdout\<close> and \<^verbatim>\<open>stderr\<close> are the process's streams and are
  not opened; every other destination is opened, and stays open with the returned sink. If
  one cannot be opened, those opened by this call are closed again and the call fails. The
  last component is the list of destinations that are open.
\<close>

definition opensFile :: "string \<Rightarrow> bool" where
  "opensFile path = (path \<noteq> ''stdout'' \<and> path \<noteq> ''stderr'')"

definition Open :: "'v Env \<Rightarrow> string list \<Rightarrow> string list \<Rightarrow> (error + WriteSyncer) \<times> string list" where
  "Open env paths files =
     (if list_all (canOpen env) paths
      then (Inr (Sinks paths), files @ filter opensFile paths)
      else (Inl (OpenSinkError (filter (\<lambda>p. \<not> canOpen env p) paths)), files))"

definition Build :: "'v Env \<Rightarrow> zap_Config \<Rightarrow> string list \<Rightarrow> (error + Core Logger) \<times> string list" where
  "Build env zc files =
     (case buildEncoder zc of
        Inl err \<Rightarrow> (Inl err, files)
      | Inr enc \<Rightarrow>
          (case Open env (zap_OutputPaths zc) files of
             (Inl err, files1) \<Rightarrow> (Inl err, files1)
           | (Inr sink, files1) \<Rightarrow>
               (case Open env (zap_ErrorOutputPaths zc) files1 of
                  (Inl err, files2) \<Rightarrow> (Inl err, files)
                | (Inr errSink, files2) \<Rightarrow>
                    (let c = NewCore enc sink (zap_Level zc);
                         c = (if length (zap_InitialFields zc) > 0
                              then CoreWith c (map (\<lambda>(k, v). zap_Any k v) (zap_InitialFields zc))
                              else c)
                     in (Inr \<lparr>core = c, errorOutput = errSink,
                              development = zap_Development zc,
                              addCaller = (\<not> zap_DisableCaller zc),
                              addStack = (if zap_DisableStacktrace zc then None
                                          else if zap_Development zc then Some WarnLevel
                                          else Some ErrorLevel)\<rparr>,
                         files2)))))"

section \<open>The export pipeline\<close>

text \<open>
  Modelled from the spec: \<^verbatim>\<open>newSDK\<close> and the SDK's \<^verbatim>\<open>LoggerProvider\<close> and
  \<^verbatim>\<open>Shutdown\<close> are not part of the source file. The SDK is constructed from the resource
  descriptor and the export-processor list; if construction fails the assembly fails. Its
  logger provider attaches the resource to every record submitted to it.
\<close>

record 'v SDK =
  sdk_resource :: "'v Resource option"
  sdk_processors :: "LogRecordProcessor list"

record 'v LoggerProviderRec =
  lp_resource :: "'v Resource option"
  lp_processors :: "LogRecordProcessor list"

definition newSDK :: "'v Env \<Rightarrow> 'v Resource option \<Rightarrow> LogRecordProcessor list \<Rightarrow> error + 'v SDK" where
  "newSDK env res procs =
     (case sdkFailure env procs of
        Some err \<Rightarrow> Inl err
      | None \<Rightarrow> Inr \<lparr>sdk_resource = res, sdk_processors = procs\<rparr>)"

definition LoggerProvider :: "'v SDK \<Rightarrow> 'v LoggerProviderRec" where
  "LoggerProvider sdk = \<lparr>lp_resource = sdk_resource sdk, lp_processors = sdk_processors sdk\<rparr>"

datatype 'v ShutdownFunc = Shutdown "'v SDK"

text \<open>
  Modelled from the spec: \<^verbatim>\<open>componentattribute.NewConsoleCoreWithAttributes\<close> and
  \<^verbatim>\<open>componentattribute.NewOTelTeeCoreWithAttributes\<close> are not part of the source file.
  The first is a pass-through stage carrying a set of scope attributes for console-destined
  records; the second is a tee that additionally submits every record to the logger
  provider under an instrumentation-scope name, with its own scope attributes.
\<close>

datatype 'v AttrCore =
    NewConsoleCoreWithAttributes Core "(string \<times> 'v) list"
  | NewOTelTeeCoreWithAttributes "'v AttrCore" "'v LoggerProviderRec" string "(string \<times> 'v) list"

section \<open>createLogger\<close>

text \<open>
  Lines 34 to 51: the output paths handed to the base logger and the file paths kept for
  rotation, as (outputPaths, errorOutputPaths, filePaths, errorFilePaths).
\<close>

definition selectPaths :: "LogsConfig \<Rightarrow> string list \<times> string list \<times> string list \<times> string list" where
  "selectPaths logs =
     (case Rotation logs of
        None \<Rightarrow> (OutputPaths logs, ErrorOutputPaths logs, [], [])
      | Some rot \<Rightarrow>
          (let (outputPaths, filePaths) = separateOutputPaths (OutputPaths logs);
               (errorOutputPaths, errorFilePaths) = separateOutputPaths (ErrorOutputPaths logs);
               outputPaths = (if length outputPaths = 0 then [''stderr''] else outputPaths);
               errorOutputPaths = (if length errorOutputPaths = 0 then [''stderr''] else errorOutputPaths)
           in (outputPaths, errorOutputPaths, filePaths, errorFilePaths)))"

text \<open>Lines 31 to 32 and 53 to 68: the configuration handed to the logging library.\<close>

definition makeZapConfig :: "LogsConfig \<Rightarrow> string list \<Rightarrow> string list \<Rightarrow> zap_Config" where
  "makeZapConfig logs outputPaths errorOutputPaths =
     (let ec = NewProductionEncoderConfig;
          ec = ec\<lparr>EncodeTime := ISO8601TimeEncoder\<rparr>;
          zapCfg = \<lparr>zap_Level = AtomicLevel (Level logs),
                    zap_Development = Development logs,
                    zap_Encoding = Encoding logs,
                    zap_EncoderConfig = ec,
                    zap_OutputPaths = outputPaths,
                    zap_ErrorOutputPaths = errorOutputPaths,
                    zap_DisableCaller = DisableCaller logs,
                    zap_DisableStacktrace = DisableStacktrace logs,
                    zap_InitialFields = InitialFields logs\<rparr>
      in if zap_Encoding zapCfg = ''console''
         then zapCfg\<lparr>zap_EncoderConfig := (zap_EncoderConfig zapCfg)\<lparr>EncodeTime := ISO8601TimeEncoder\<rparr>\<rparr>
         else zapCfg)"

text \<open>Lines 77 to 127: the function given to \<^verbatim>\<open>zap.WrapCore\<close> by the rotation stage.\<close>

definition rotationCore :: "LogsRotationConfig \<Rightarrow> zap_Config \<Rightarrow> string list \<Rightarrow> string list \<Rightarrow> Core \<Rightarrow> Core" where
  "rotationCore rot zapCfg filePaths errorFilePaths c =
     (let cores = [c];
          encoder = (if zap_Encoding zapCfg = ''json''
                     then NewJSONEncoder (zap_EncoderConfig zapCfg)
                     else NewConsoleEncoder (zap_EncoderConfig zapCfg));
          cores = foldl (\<lambda>cores path.
                    (let w = LumberjackLogger path (MaxSizeMB rot) (MaxBackups rot) (MaxAgeDays rot) (Compress rot);
                         fileCore = NewCore encoder w (zap_Level zapCfg)
                     in cores @ [fileCore])) cores filePaths;
          cores = foldl (\<lambda>cores path.
                    (let w = LumberjackLogger path (MaxSizeMB rot) (MaxBackups rot) (MaxAgeDays rot) (Compress rot);
                         errorCore = NewCore encoder w (ConstLevel ErrorLevel)
                     in cores @ [errorCore])) cores errorFilePaths
      in NewTee cores)"

text \<open>Lines 138 to 146: the function given to \<^verbatim>\<open>zap.WrapCore\<close> by the resource stage.\<close>

definition resourceCore :: "'v Env \<Rightarrow> 'v Resource \<Rightarrow> Core \<Rightarrow> Core" where
  "resourceCore env attrs c =
     (let fields = foldl (\<lambda>fields (k, v). fields @ [zap_String k (Emit env v)]) [] attrs;
          r = zap_Dict ''resource'' fields
      in CoreWith c [r])"

text \<open>
  The function itself. The resource descriptor (\<^verbatim>\<open>newResource(set.Settings, cfg)\<close>, not
  part of the source file) is a parameter, \<open>None\<close> for \<^verbatim>\<open>nil\<close>; the caller's
  \<^verbatim>\<open>set.ZapOptions\<close> are taken to be empty. The result is Go's triple, with \<open>None\<close> for
  \<^verbatim>\<open>nil\<close>, together with the destinations that are open afterwards.
\<close>

definition createLogger ::
  "'v Env \<Rightarrow> Config \<Rightarrow> 'v Resource option \<Rightarrow> string list \<Rightarrow>
     ('v AttrCore Logger option \<times> 'v ShutdownFunc option \<times> error option) \<times> string list" where
  "createLogger env cfg res files =
     (let (outputPaths, errorOutputPaths, filePaths, errorFilePaths) = selectPaths (Logs cfg);
          zapCfg = makeZapConfig (Logs cfg) outputPaths errorOutputPaths
      in case Build env zapCfg files of
           (Inl err, files1) \<Rightarrow> ((None, None, Some err), files1)
         | (Inr logger, files1) \<Rightarrow>
             (let logger =
                    (case Rotation (Logs cfg) of
                       None \<Rightarrow> logger
                     | Some rot \<Rightarrow>
                         if length filePaths > 0 \<or> length errorFilePaths > 0
                         then WrapCore (rotationCore rot zapCfg filePaths errorFilePaths) logger
                         else logger);
                  logger =
                    (case res of
                       None \<Rightarrow> logger
                     | Some attrs \<Rightarrow>
                         if length attrs > 0
                         then WrapCore (resourceCore env attrs) logger
                         else logger);
                  logger =
                    (case Sampling (Logs cfg) of
                       None \<Rightarrow> logger
                     | Some s \<Rightarrow>
                         if Enabled s
                         then WrapCore (\<lambda>c. NewSamplerWithOptions c (Tick s) (Initial s) (Thereafter s)) logger
                         else logger)
              in case newSDK env res (Processors (Logs cfg)) of
                   Inl err \<Rightarrow> ((None, None, Some err), files1)
                 | Inr sdk \<Rightarrow>
                     (let loggerProvider = LoggerProvider sdk;
                          logger' = WrapCore (\<lambda>c.
                                      (let c1 = NewConsoleCoreWithAttributes c [];
                                           c2 = NewOTelTeeCoreWithAttributes c1 loggerProvider
                                                  ''go.opentelemetry.io/collector/service'' []
                                       in c2)) logger
                      in ((Some logger', Some (Shutdown sdk), None), files1))))"

section \<open>Emitting a record\<close>

record Entry =
  EntryLevel :: Level
  Message :: string

text \<open>
  What one emitted record produces: a write of the entry with its fields to a local write
  syncer through an encoder, or a submission to the export pipeline, which attaches the
  provider's resource.
\<close>

datatype 'v Output =
    Local WriteSyncer Encoder Entry "Field list"
  | Exported string "'v Resource option" Entry "Field list"

text \<open>
  \<^verbatim>\<open>Check\<close> followed by \<^verbatim>\<open>Write\<close>. An IO core writes the entry when its level enabler
  enables the entry's level, with the fields accumulated in its encoder followed by the
  fields of the call; a fan-out hands the entry to each of its cores; a sampler hands it
  on when its counters let it through (\<open>sampled\<close>, run-time state of the library).
\<close>

fun CoreWrite :: "Core \<Rightarrow> bool \<Rightarrow> Entry \<Rightarrow> Field list \<Rightarrow> 'v Output list" where
  "CoreWrite NopCore sampled ent fs = []"
| "CoreWrite (IOCore enc ctx ws enab) sampled ent fs =
     (if LevelEnabled enab (EntryLevel ent) then [Local ws enc ent (ctx @ fs)] else [])"
| "CoreWrite (MultiCore cores) sampled ent fs =
     concat (map (\<lambda>c. CoreWrite c sampled ent fs) cores)"
| "CoreWrite (Sampler c tick first thereafter) sampled ent fs =
     (if \<not> CoreEnabled c (EntryLevel ent) then []
      else if sampled then CoreWrite c sampled ent fs
      else [])"



section \<open>The stages of the assembly, as the specification names them\<close>

text \<open>The four components of \<^verbatim>\<open>selectPaths\<close> and the configuration built from them.\<close>

definition outputPathsOf :: "LogsConfig \<Rightarrow> string list" where
  "outputPathsOf logs = fst (selectPaths logs)"

definition errorOutputPathsOf :: "LogsConfig \<Rightarrow> string list" where
  "errorOutputPathsOf logs = fst (snd (selectPaths logs))"

definition filePathsOf :: "LogsConfig \<Rightarrow> string list" where
  "filePathsOf logs = fst (snd (snd (selectPaths logs)))"

definition errorFilePathsOf :: "LogsConfig \<Rightarrow> string list" where
  "errorFilePathsOf logs = snd (snd (snd (selectPaths logs)))"

definition zapConfigOf :: "LogsConfig \<Rightarrow> zap_Config" where
  "zapConfigOf logs = makeZapConfig logs (outputPathsOf logs) (errorOutputPathsOf logs)"

text \<open>
  The specification's pipeline: apply rotation (if any), inject resource attributes (if
  any), apply sampling (if any), apply the dual-export tee. Each stage is written here on
  its own, to be compared with what \<^verbatim>\<open>createLogger\<close> computes.
\<close>

definition rotationStage :: "LogsConfig \<Rightarrow> Core \<Rightarrow> Core" where
  "rotationStage logs c =
     (case Rotation logs of
        None \<Rightarrow> c
      | Some rot \<Rightarrow>
          if filePathsOf logs = [] \<and> errorFilePathsOf logs = [] then c
          else rotationCore rot (zapConfigOf logs) (filePathsOf logs) (errorFilePathsOf logs) c)"

definition resourceStage :: "'v Env \<Rightarrow> 'v Resource option \<Rightarrow> Core \<Rightarrow> Core" where
  "resourceStage env res c =
     (case res of
        None \<Rightarrow> c
      | Some attrs \<Rightarrow> if attrs = [] then c else resourceCore env attrs c)"

definition samplingStage :: "LogsConfig \<Rightarrow> Core \<Rightarrow> Core" where
  "samplingStage logs c =
     (case Sampling logs of
        None \<Rightarrow> c
      | Some s \<Rightarrow> if Enabled s then NewSamplerWithOptions c (Tick s) (Initial s) (Thereafter s) else c)"

definition exportStage :: "'v SDK \<Rightarrow> Core \<Rightarrow> 'v AttrCore" where
  "exportStage sdk c =
     NewOTelTeeCoreWithAttributes (NewConsoleCoreWithAttributes c []) (LoggerProvider sdk)
       ''go.opentelemetry.io/collector/service'' []"

text \<open>
  The resource group of the specification: one nested group named \<^verbatim>\<open>resource\<close> whose
  children are the attributes as string fields; nothing when there are no attributes.
\<close>

definition resourceFields :: "'v Env \<Rightarrow> 'v Resource option \<Rightarrow> Field list" where
  "resourceFields env res =
     (case res of
        None \<Rightarrow> []
      | Some attrs \<Rightarrow>
          if attrs = [] then []
          else [zap_Dict ''resource'' (map (\<lambda>(k, v). zap_String k (Emit env v)) attrs)])"

section \<open>Observing an assembled core\<close>

text \<open>
  The IO cores a core writes through, in fan-out order, each as its encoder, accumulated
  fields, write syncer and level enabler.
\<close>

type_synonym Leaf = "Encoder \<times> Field list \<times> WriteSyncer \<times> LevelEnabler"

fun leafParts :: "Core \<Rightarrow> Leaf list" where
  "leafParts NopCore = []"
| "leafParts (IOCore enc ctx ws enab) = [(enc, ctx, ws, enab)]"
| "leafParts (MultiCore cores) = concat (map leafParts cores)"
| "leafParts (Sampler c tick first thereafter) = leafParts c"

fun localLeaves :: "'v AttrCore \<Rightarrow> Leaf list" where
  "localLeaves (NewConsoleCoreWithAttributes c attrs) = leafParts c"
| "localLeaves (NewOTelTeeCoreWithAttributes c lp scopeName attrs) = localLeaves c"

definition addFields :: "Field list \<Rightarrow> Leaf \<Rightarrow> Leaf" where
  "addFields fs leaf = (case leaf of (enc, ctx, ws, enab) \<Rightarrow> (enc, ctx @ fs, ws, enab))"

text \<open>
  The rotation stage appends its cores to the base core: first one per file path, then one
  per error file path. The leaves after the base core and the file-path cores are the
  cores of the error-only rotated destinations.
\<close>

definition errorRotationLeaves :: "LogsConfig \<Rightarrow> 'v AttrCore \<Rightarrow> Leaf list" where
  "errorRotationLeaves logs c = drop (1 + length (filePathsOf logs)) (localLeaves c)"

definition rotationEncoder :: "LogsConfig \<Rightarrow> Encoder" where
  "rotationEncoder logs =
     (if Encoding logs = ''json''
      then NewJSONEncoder \<lparr>EncodeTime = ISO8601TimeEncoder\<rparr>
      else NewConsoleEncoder \<lparr>EncodeTime = ISO8601TimeEncoder\<rparr>)"

definition rotationLeaves :: "LogsConfig \<Rightarrow> Leaf list" where
  "rotationLeaves logs =
     (case Rotation logs of
        None \<Rightarrow> []
      | Some rot \<Rightarrow>
          map (\<lambda>path. (rotationEncoder logs, [],
                 LumberjackLogger path (MaxSizeMB rot) (MaxBackups rot) (MaxAgeDays rot) (Compress rot),
                 AtomicLevel (Level logs))) (filePathsOf logs) @
          map (\<lambda>path. (rotationEncoder logs, [],
                 LumberjackLogger path (MaxSizeMB rot) (MaxBackups rot) (MaxAgeDays rot) (Compress rot),
                 ConstLevel ErrorLevel)) (errorFilePathsOf logs))"



section \<open>Concrete configurations\<close>

definition exampleEnv :: "string Env" where
  "exampleEnv = \<lparr>Emit = (\<lambda>v. v), canOpen = (\<lambda>p. True), sdkFailure = (\<lambda>procs. None)\<rparr>"

text \<open>An environment in which the SDK cannot be built from a processor named \<open>invalid\<close>.\<close>

definition failingSDKEnv :: "string Env" where
  "failingSDKEnv = \<lparr>Emit = (\<lambda>v. v), canOpen = (\<lambda>p. True),
                     sdkFailure = (\<lambda>procs. if ''invalid'' \<in> set procs
                                           then Some (SDKError ''invalid processor'')
                                           else None)\<rparr>"

definition exampleRotation :: LogsRotationConfig where
  "exampleRotation = \<lparr>MaxSizeMB = 100, MaxBackups = 3, MaxAgeDays = 28, Compress = False\<rparr>"

text \<open>Rotation and sampling configured, every configured target durable, threshold info.\<close>

definition rotationConfig :: Config where
  "rotationConfig =
     \<lparr>Logs = \<lparr>Level = InfoLevel, Development = False, Encoding = ''json'',
              DisableCaller = False, DisableStacktrace = False,
              Sampling = Some \<lparr>Enabled = True, Tick = 1000000000, Initial = 2, Thereafter = 5\<rparr>,
              OutputPaths = [''/var/log/app.log''],
              ErrorOutputPaths = [''/var/log/app.err.log''],
              InitialFields = [], Processors = [],
              Rotation = Some exampleRotation\<rparr>\<rparr>"

text \<open>Rotation configured, every configured target interactive.\<close>

definition consoleOnlyConfig :: Config where
  "consoleOnlyConfig =
     \<lparr>Logs = \<lparr>Level = InfoLevel, Development = False, Encoding = ''console'',
              DisableCaller = False, DisableStacktrace = False,
              Sampling = None,
              OutputPaths = [''stdout''],
              ErrorOutputPaths = [''stderr''],
              InitialFields = [], Processors = [],
              Rotation = Some exampleRotation\<rparr>\<rparr>"

text \<open>No rotation, the given output paths.\<close>

definition plainConfig :: "string list \<Rightarrow> Config" where
  "plainConfig paths =
     \<lparr>Logs = \<lparr>Level = InfoLevel, Development = False, Encoding = ''console'',
              DisableCaller = False, DisableStacktrace = False,
              Sampling = None,
              OutputPaths = paths,
              ErrorOutputPaths = [''stderr''],
              InitialFields = [], Processors = [],
              Rotation = None\<rparr>\<rparr>"

text \<open>No rotation, one file output path, and an export processor the SDK rejects.\<close>

definition invalidProcessorConfig :: Config where
  "invalidProcessorConfig =
     \<lparr>Logs = \<lparr>Level = InfoLevel, Development = False, Encoding = ''console'',
              DisableCaller = False, DisableStacktrace = False,
              Sampling = None,
              OutputPaths = [''/var/log/app.log''],
              ErrorOutputPaths = [''stderr''],
              InitialFields = [], Processors = [''invalid''],
              Rotation = None\<rparr>\<rparr>"

definition exampleResource :: "string Resource option" where
  "exampleResource = Some [(''service'', ''x'')]"

definition exampleSDK :: "string SDK" where
  "exampleSDK = \<lparr>sdk_resource = exampleResource, sdk_processors = []\<rparr>"

text \<open>The logger assembled from \<open>rotationConfig\<close> and \<open>exampleResource\<close>.\<close>

definition rotationLogger :: "string AttrCore Logger" where
  "rotationLogger =
     \<lparr>core =
        NewOTelTeeCoreWithAttributes
          (NewConsoleCoreWithAttributes
            (Sampler
              (MultiCore
                [IOCore (NewJSONEncoder \<lparr>EncodeTime = ISO8601TimeEncoder\<rparr>)
                   [zap_Dict ''resource'' [zap_String ''service'' ''x'']]
                   (Sinks [''stderr'']) (AtomicLevel 0),
                 IOCore (NewJSONEncoder \<lparr>EncodeTime = ISO8601TimeEncoder\<rparr>)
                   [zap_Dict ''resource'' [zap_String ''service'' ''x'']]
                   (LumberjackLogger ''/var/log/app.log'' 100 3 28 False) (AtomicLevel 0),
                 IOCore (NewJSONEncoder \<lparr>EncodeTime = ISO8601TimeEncoder\<rparr>)
                   [zap_Dict ''resource'' [zap_String ''service'' ''x'']]
                   (LumberjackLogger ''/var/log/app.err.log'' 100 3 28 False) (ConstLevel 2)])
              1000000000 2 5)
            [])
          \<lparr>lp_resource = Some [(''service'', ''x'')], lp_processors = []\<rparr>
          ''go.opentelemetry.io/collector/service'' [],
      errorOutput = Sinks [''stderr''], development = False,
      addCaller = True, addStack = Some 2\<rparr>"

text \<open>The logger assembled from \<open>consoleOnlyConfig\<close> and \<open>exampleResource\<close>.\<close>

definition consoleOnlyLogger :: "string AttrCore Logger" where
  "consoleOnlyLogger =
     \<lparr>core =
        NewOTelTeeCoreWithAttributes
          (NewConsoleCoreWithAttributes
            (IOCore (NewConsoleEncoder \<lparr>EncodeTime = ISO8601TimeEncoder\<rparr>)
               [zap_Dict ''resource'' [zap_String ''service'' ''x'']]
               (Sinks [''stdout'']) (AtomicLevel 0))
            [])
          \<lparr>lp_resource = Some [(''service'', ''x'')], lp_processors = []\<rparr>
          ''go.opentelemetry.io/collector/service'' [],
      errorOutput = Sinks [''stderr''], development = False,
      addCaller = True, addStack = Some 2\<rparr>"

text \<open>The logger assembled from \<open>plainConfig []\<close> and no resource.\<close>

definition emptyPathsLogger :: "string AttrCore Logger" where
  "emptyPathsLogger =
     \<lparr>core =
        NewOTelTeeCoreWithAttributes
          (NewConsoleCoreWithAttributes
            (IOCore (NewConsoleEncoder \<lparr>EncodeTime = ISO8601TimeEncoder\<rparr>) []
               (Sinks []) (AtomicLevel 0))
            [])
          \<lparr>lp_resource = None, lp_processors = []\<rparr>
          ''go.opentelemetry.io/collector/service'' [],
      errorOutput = Sinks [''stderr''], development = False,
      addCaller = True, addStack = Some 2\<rparr>"

text \<open>The base logger built for \<open>invalidProcessorConfig\<close>.\<close>

definition plainBaseLogger :: "Core Logger" where
  "plainBaseLogger =
     \<lparr>core = IOCore (NewConsoleEncoder \<lparr>EncodeTime = ISO8601TimeEncoder\<rparr>) []
               (Sinks [''/var/log/app.log'']) (AtomicLevel 0),
      errorOutput = Sinks [''stderr''], development = False,
      addCaller = True, addStack = Some 2\<rparr>"

section \<open>Auxiliary facts\<close>

lemmas eval_defs = createLogger_def selectPaths_def separateOutputPaths_def isConsolePath_def
  HasPrefix_def makeZapConfig_def Build_def buildEncoder_def Open_def opensFile_def NewCore_def
  rotationCore_def resourceCore_def NewSamplerWithOptions_def newSDK_def LoggerProvider_def
  WrapCore_def NewProductionEncoderConfig_def Let_def
  exampleEnv_def failingSDKEnv_def exampleRotation_def rotationConfig_def plainConfig_def
  invalidProcessorConfig_def
  consoleOnlyConfig_def exampleResource_def exampleSDK_def rotationLogger_def
  consoleOnlyLogger_def emptyPathsLogger_def plainBaseLogger_def InfoLevel_def ErrorLevel_def
  WarnLevel_def

lemma separateLoop_filter:
  "separateLoop paths cp fp =
     (cp @ filter isConsolePath paths, fp @ filter (\<lambda>p. \<not> isConsolePath p) paths)"
  by (induction paths arbitrary: cp fp) simp_all

lemma separateOutputPaths_filter:
  "separateOutputPaths paths =
     (filter isConsolePath paths, filter (\<lambda>p. \<not> isConsolePath p) paths)"
  by (simp add: separateOutputPaths_def separateLoop_filter)

lemma HasPrefix_prefix: "HasPrefix s pre = prefix pre s"
  by (auto simp: HasPrefix_def prefix_def min_def) (metis append_eq_conv_conj)

lemma foldl_append_map: "foldl (\<lambda>acc x. acc @ [f x]) acc xs = acc @ map f xs"
  by (induction xs arbitrary: acc) simp_all

lemma selectPaths_proj:
  "selectPaths logs =
     (outputPathsOf logs, errorOutputPathsOf logs, filePathsOf logs, errorFilePathsOf logs)"
  by (simp add: outputPathsOf_def errorOutputPathsOf_def filePathsOf_def errorFilePathsOf_def)

lemma createLogger_unfold:
  "createLogger env cfg res files =
     (case Build env (zapConfigOf (Logs cfg)) files of
        (Inl err, files1) \<Rightarrow> ((None, None, Some err), files1)
      | (Inr logger, files1) \<Rightarrow>
          (case newSDK env res (Processors (Logs cfg)) of
             Inl err \<Rightarrow> ((None, None, Some err), files1)
           | Inr sdk \<Rightarrow>
               ((Some (WrapCore (\<lambda>c. exportStage sdk (samplingStage (Logs cfg)
                          (resourceStage env res (rotationStage (Logs cfg) c)))) logger),
                 Some (Shutdown sdk), None), files1)))"
  unfolding createLogger_def selectPaths_proj [of "Logs cfg"]
  by (auto simp: Let_def zapConfigOf_def rotationStage_def resourceStage_def samplingStage_def
        exportStage_def WrapCore_def split: prod.splits sum.splits option.splits)

lemma leafParts_CoreWith: "leafParts (CoreWith c fs) = map (addFields fs) (leafParts c)"
  by (induction c) (simp_all add: addFields_def map_concat comp_def cong: map_cong)

lemma leafParts_NewTee: "leafParts (NewTee cores) = concat (map leafParts cores)"
  by (cases cores rule: NewTee.cases) simp_all

lemma zapConfigOf_simps:
  "zap_Level (zapConfigOf logs) = AtomicLevel (Level logs)"
  "zap_Encoding (zapConfigOf logs) = Encoding logs"
  "zap_EncoderConfig (zapConfigOf logs) = \<lparr>EncodeTime = ISO8601TimeEncoder\<rparr>"
  "zap_OutputPaths (zapConfigOf logs) = outputPathsOf logs"
  "zap_ErrorOutputPaths (zapConfigOf logs) = errorOutputPathsOf logs"
  "zap_InitialFields (zapConfigOf logs) = InitialFields logs"
  "zap_Development (zapConfigOf logs) = Development logs"
  "zap_DisableCaller (zapConfigOf logs) = DisableCaller logs"
  "zap_DisableStacktrace (zapConfigOf logs) = DisableStacktrace logs"
  by (simp_all add: zapConfigOf_def makeZapConfig_def Let_def NewProductionEncoderConfig_def)

lemma selectPaths_None:
  "Rotation logs = None \<Longrightarrow> filePathsOf logs = [] \<and> errorFilePathsOf logs = [] \<and>
     outputPathsOf logs = OutputPaths logs \<and> errorOutputPathsOf logs = ErrorOutputPaths logs"
  by (simp add: filePathsOf_def errorFilePathsOf_def outputPathsOf_def errorOutputPathsOf_def
        selectPaths_def)

lemma selectPaths_Some:
  "Rotation logs = Some rot \<Longrightarrow>
     filePathsOf logs = filter (\<lambda>p. \<not> isConsolePath p) (OutputPaths logs) \<and>
     errorFilePathsOf logs = filter (\<lambda>p. \<not> isConsolePath p) (ErrorOutputPaths logs) \<and>
     outputPathsOf logs = (if filter isConsolePath (OutputPaths logs) = [] then [''stderr'']
                           else filter isConsolePath (OutputPaths logs)) \<and>
     errorOutputPathsOf logs = (if filter isConsolePath (ErrorOutputPaths logs) = [] then [''stderr'']
                           else filter isConsolePath (ErrorOutputPaths logs))"
  by (simp add: filePathsOf_def errorFilePathsOf_def outputPathsOf_def errorOutputPathsOf_def
        selectPaths_def separateOutputPaths_filter Let_def)

lemma leafParts_rotationCore:
  "leafParts (rotationCore rot zc fps efps c) =
     leafParts c @
     map (\<lambda>path. ((if zap_Encoding zc = ''json'' then NewJSONEncoder (zap_EncoderConfig zc)
                    else NewConsoleEncoder (zap_EncoderConfig zc)), [],
            LumberjackLogger path (MaxSizeMB rot) (MaxBackups rot) (MaxAgeDays rot) (Compress rot),
            zap_Level zc)) fps @
     map (\<lambda>path. ((if zap_Encoding zc = ''json'' then NewJSONEncoder (zap_EncoderConfig zc)
                    else NewConsoleEncoder (zap_EncoderConfig zc)), [],
            LumberjackLogger path (MaxSizeMB rot) (MaxBackups rot) (MaxAgeDays rot) (Compress rot),
            ConstLevel ErrorLevel)) efps"
  by (simp add: rotationCore_def Let_def foldl_append_map leafParts_NewTee NewCore_def
        map_concat comp_def)

lemma leafParts_rotationStage:
  "leafParts (rotationStage logs c) = leafParts c @ rotationLeaves logs"
  by (auto simp: rotationStage_def rotationLeaves_def leafParts_rotationCore zapConfigOf_simps
        rotationEncoder_def dest: selectPaths_None split: option.splits)

lemma resourceCore_eq:
  "resourceCore env attrs c =
     CoreWith c [zap_Dict ''resource'' (map (\<lambda>(k, v). zap_String k (Emit env v)) attrs)]"
  using foldl_append_map [of "\<lambda>p. zap_String (fst p) (Emit env (snd p))" "[]" attrs]
  by (simp add: resourceCore_def Let_def case_prod_unfold)

lemma addFields_Nil: "map (addFields []) leaves = leaves"
  by (induction leaves) (simp_all add: addFields_def)

lemma leafParts_resourceStage:
  "leafParts (resourceStage env res c) = map (addFields (resourceFields env res)) (leafParts c)"
  by (simp add: resourceStage_def resourceFields_def resourceCore_eq leafParts_CoreWith
        addFields_Nil split: option.splits)

lemma leafParts_samplingStage: "leafParts (samplingStage logs c) = leafParts c"
  by (simp add: samplingStage_def NewSamplerWithOptions_def split: option.splits)

lemma localLeaves_exportStage: "localLeaves (exportStage sdk c) = leafParts c"
  by (simp add: exportStage_def)

lemma Build_Inr:
  assumes "Build env zc files = (Inr lg, files1)"
  shows "\<exists>enc. buildEncoder zc = Inr enc \<and>
           core lg = IOCore enc (map (\<lambda>(k, v). zap_Any k v) (zap_InitialFields zc))
                       (Sinks (zap_OutputPaths zc)) (zap_Level zc) \<and>
           errorOutput lg = Sinks (zap_ErrorOutputPaths zc) \<and>
           files1 = files @ filter opensFile (zap_OutputPaths zc) @
                      filter opensFile (zap_ErrorOutputPaths zc)"
  using assms
  by (auto simp: Build_def Open_def Let_def NewCore_def split: sum.splits if_splits prod.splits)

lemma buildEncoder_rotationEncoder:
  "buildEncoder (zapConfigOf logs) = Inr enc \<Longrightarrow> enc = rotationEncoder logs"
  by (auto simp: buildEncoder_def rotationEncoder_def zapConfigOf_simps split: if_splits)


lemma createLogger_Some:
  assumes "createLogger env cfg res files = ((Some lg, sd, er), files')"
  shows "\<exists>base sdk. Build env (zapConfigOf (Logs cfg)) files = (Inr base, files') \<and>
           newSDK env res (Processors (Logs cfg)) = Inr sdk \<and>
           core lg = exportStage sdk (samplingStage (Logs cfg)
                       (resourceStage env res (rotationStage (Logs cfg) (core base)))) \<and>
           errorOutput lg = errorOutput base \<and>
           sd = Some (Shutdown sdk) \<and> er = None"
  using assms unfolding createLogger_unfold
  by (auto simp: WrapCore_def split: prod.splits sum.splits)

lemma createLogger_leaves:
  assumes "createLogger env cfg res files = ((Some lg, sd, er), files')"
  shows "localLeaves (core lg) =
           map (addFields (resourceFields env res))
             ((rotationEncoder (Logs cfg), map (\<lambda>(k, v). zap_Any k v) (InitialFields (Logs cfg)),
               Sinks (outputPathsOf (Logs cfg)), AtomicLevel (Level (Logs cfg)))
              # rotationLeaves (Logs cfg))"
proof -
  from createLogger_Some [OF assms] obtain base sdk where
    b: "Build env (zapConfigOf (Logs cfg)) files = (Inr base, files')" and
    c: "core lg = exportStage sdk (samplingStage (Logs cfg)
                       (resourceStage env res (rotationStage (Logs cfg) (core base))))"
    by blast
  from Build_Inr [OF b] obtain enc where
    e: "buildEncoder (zapConfigOf (Logs cfg)) = Inr enc" and
    cb: "core base = IOCore enc (map (\<lambda>(k, v). zap_Any k v) (InitialFields (Logs cfg)))
                       (Sinks (outputPathsOf (Logs cfg))) (AtomicLevel (Level (Logs cfg)))"
    by (auto simp: zapConfigOf_simps)
  from buildEncoder_rotationEncoder [OF e] have "enc = rotationEncoder (Logs cfg)" .
  with c cb show ?thesis
    by (simp add: localLeaves_exportStage leafParts_samplingStage leafParts_resourceStage
          leafParts_rotationStage)
qed




lemma createLogger_base_leaf:
  assumes ok: "createLogger env cfg res files = ((Some lg, sd, er), files')"
  shows "hd (localLeaves (core lg)) =
           (rotationEncoder (Logs cfg),
            map (\<lambda>(k, v). zap_Any k v) (InitialFields (Logs cfg)) @ resourceFields env res,
            Sinks (outputPathsOf (Logs cfg)), AtomicLevel (Level (Logs cfg))) \<and>
         errorOutput lg = Sinks (errorOutputPathsOf (Logs cfg))"
proof -
  from createLogger_Some [OF ok] obtain base sdk where
    b: "Build env (zapConfigOf (Logs cfg)) files = (Inr base, files')" and
    e: "errorOutput lg = errorOutput base"
    by blast
  from Build_Inr [OF b] e have "errorOutput lg = Sinks (errorOutputPathsOf (Logs cfg))"
    by (auto simp: zapConfigOf_simps)
  then show ?thesis
    by (simp add: createLogger_leaves [OF ok] addFields_def)
qed





lemma rotationLeaves_encoders:
  "map fst (rotationLeaves logs) =
     map (\<lambda>p. rotationEncoder logs) (filePathsOf logs @ errorFilePathsOf logs)"
  by (auto simp: rotationLeaves_def comp_def dest: selectPaths_None split: option.splits)

lemma map_fst_addFields: "map fst (map (addFields fs) leaves) = map fst leaves"
  by (induction leaves) (auto simp: addFields_def)

lemma rotationCore_MultiCore:
  "fps \<noteq> [] \<or> efps \<noteq> [] \<Longrightarrow>
   rotationCore rot zc fps efps c =
     MultiCore (c #
       map (\<lambda>path. IOCore (if zap_Encoding zc = ''json'' then NewJSONEncoder (zap_EncoderConfig zc)
                            else NewConsoleEncoder (zap_EncoderConfig zc)) []
              (LumberjackLogger path (MaxSizeMB rot) (MaxBackups rot) (MaxAgeDays rot) (Compress rot))
              (zap_Level zc)) fps @
       map (\<lambda>path. IOCore (if zap_Encoding zc = ''json'' then NewJSONEncoder (zap_EncoderConfig zc)
                            else NewConsoleEncoder (zap_EncoderConfig zc)) []
              (LumberjackLogger path (MaxSizeMB rot) (MaxBackups rot) (MaxAgeDays rot) (Compress rot))
              (ConstLevel ErrorLevel)) efps)"
proof -
  assume ne: "fps \<noteq> [] \<or> efps \<noteq> []"
  have tee: "\<And>xs. xs \<noteq> [] \<Longrightarrow> NewTee (c # xs) = MultiCore (c # xs)"
    by (case_tac xs) simp_all
  from ne show ?thesis
    by (simp add: rotationCore_def Let_def foldl_append_map NewCore_def tee)
qed

section \<open>The classifier\<close>

text \<open>
  C4, as the code has it: \<^verbatim>\<open>separateOutputPaths\<close> puts a destination in the console
  list exactly when it is \<^verbatim>\<open>stdout\<close> or \<^verbatim>\<open>stderr\<close> or begins with
  \<^verbatim>\<open>file://stdout\<close> or \<^verbatim>\<open>file://stderr\<close> (whatever follows), and in the file list
  otherwise.
\<close>

theorem separateOutputPaths_prefix_classification:
  "fst (separateOutputPaths paths) =
     filter (\<lambda>p. p = ''stdout'' \<or> p = ''stderr'' \<or>
                  prefix ''file://stdout'' p \<or> prefix ''file://stderr'' p) paths \<and>
   snd (separateOutputPaths paths) =
     filter (\<lambda>p. \<not> (p = ''stdout'' \<or> p = ''stderr'' \<or>
                  prefix ''file://stdout'' p \<or> prefix ''file://stderr'' p)) paths"
proof -
  have eq: "isConsolePath = (\<lambda>p. p = ''stdout'' \<or> p = ''stderr'' \<or>
                  prefix ''file://stdout'' p \<or> prefix ''file://stderr'' p)"
    by (simp add: fun_eq_iff isConsolePath_def HasPrefix_prefix)
  show ?thesis
    unfolding separateOutputPaths_filter eq by simp
qed

text \<open>
  C4, as stated, fails: \<^verbatim>\<open>file://stdout.log\<close> is none of the two stream names and none
  of the two URIs made of \<^verbatim>\<open>file://\<close> and a stream name, yet it is classified as
  interactive.
\<close>

theorem separateOutputPaths_exact_uri_counterexample:
  "separateOutputPaths [''file://stdout.log''] = ([''file://stdout.log''], []) \<and>
   ''file://stdout.log'' \<notin> {''stdout'', ''stderr'', ''file://stdout'', ''file://stderr''}"
  by (simp add: separateOutputPaths_def isConsolePath_def HasPrefix_def)

text \<open>
  C5: the two lists \<^verbatim>\<open>separateOutputPaths\<close> returns are order-preserving subsequences
  of the input, no destination is in both, every destination of the input is in one of
  them, and together they hold the input's elements with their multiplicities.
\<close>

theorem separateOutputPaths_partition:
  "subseq (fst (separateOutputPaths paths)) paths \<and>
   subseq (snd (separateOutputPaths paths)) paths \<and>
   set (fst (separateOutputPaths paths)) \<inter> set (snd (separateOutputPaths paths)) = {} \<and>
   set (fst (separateOutputPaths paths)) \<union> set (snd (separateOutputPaths paths)) = set paths \<and>
   mset (fst (separateOutputPaths paths)) + mset (snd (separateOutputPaths paths)) = mset paths \<and>
   length (fst (separateOutputPaths paths)) + length (snd (separateOutputPaths paths)) = length paths"
proof -
  have "set (filter isConsolePath paths) \<inter> set (filter (\<lambda>p. \<not> isConsolePath p) paths) = {}"
    by auto
  moreover have "set (filter isConsolePath paths) \<union> set (filter (\<lambda>p. \<not> isConsolePath p) paths) = set paths"
    by auto
  moreover have "mset (filter isConsolePath paths) + mset (filter (\<lambda>p. \<not> isConsolePath p) paths) = mset paths"
    by (induction paths) simp_all
  moreover have "length (filter isConsolePath paths) + length (filter (\<lambda>p. \<not> isConsolePath p) paths) = length paths"
    by (rule sum_length_filter_compl)
  ultimately show ?thesis
    by (simp add: separateOutputPaths_filter)
qed

section \<open>Output targets of the base logger\<close>

text \<open>
  C3: when rotation is configured, each of the two target lists is classified on its own,
  and a list whose console part is empty is replaced by the single target \<^verbatim>\<open>stderr\<close>;
  so both lists handed to the base logger are non-empty and hold console destinations
  only, and the base core of an assembled logger writes to exactly that list.
\<close>

theorem rotation_substitutes_stderr:
  assumes rot: "Rotation (Logs cfg) = Some rot"
  shows "outputPathsOf (Logs cfg) =
           (if fst (separateOutputPaths (OutputPaths (Logs cfg))) = [] then [''stderr'']
            else fst (separateOutputPaths (OutputPaths (Logs cfg)))) \<and>
         errorOutputPathsOf (Logs cfg) =
           (if fst (separateOutputPaths (ErrorOutputPaths (Logs cfg))) = [] then [''stderr'']
            else fst (separateOutputPaths (ErrorOutputPaths (Logs cfg)))) \<and>
         outputPathsOf (Logs cfg) \<noteq> [] \<and> list_all isConsolePath (outputPathsOf (Logs cfg)) \<and>
         errorOutputPathsOf (Logs cfg) \<noteq> [] \<and> list_all isConsolePath (errorOutputPathsOf (Logs cfg)) \<and>
         (\<forall>lg sd er files'.
            createLogger env cfg res files = ((Some lg, sd, er), files') \<longrightarrow>
              fst (snd (snd (hd (localLeaves (core lg))))) = Sinks (outputPathsOf (Logs cfg)) \<and>
              errorOutput lg = Sinks (errorOutputPathsOf (Logs cfg)))"
proof -
  have std: "isConsolePath ''stderr''"
    by (simp add: isConsolePath_def)
  have a: "outputPathsOf (Logs cfg) =
           (if fst (separateOutputPaths (OutputPaths (Logs cfg))) = [] then [''stderr'']
            else fst (separateOutputPaths (OutputPaths (Logs cfg))))"
    and b: "errorOutputPathsOf (Logs cfg) =
           (if fst (separateOutputPaths (ErrorOutputPaths (Logs cfg))) = [] then [''stderr'']
            else fst (separateOutputPaths (ErrorOutputPaths (Logs cfg))))"
    using selectPaths_Some [OF rot] by (simp_all add: separateOutputPaths_filter)
  have c: "outputPathsOf (Logs cfg) \<noteq> [] \<and> list_all isConsolePath (outputPathsOf (Logs cfg))"
    unfolding a by (simp add: separateOutputPaths_filter std list_all_iff)
  have d: "errorOutputPathsOf (Logs cfg) \<noteq> [] \<and> list_all isConsolePath (errorOutputPathsOf (Logs cfg))"
    unfolding b by (simp add: separateOutputPaths_filter std list_all_iff)
  have e: "\<forall>lg sd er files'.
            createLogger env cfg res files = ((Some lg, sd, er), files') \<longrightarrow>
              fst (snd (snd (hd (localLeaves (core lg))))) = Sinks (outputPathsOf (Logs cfg)) \<and>
              errorOutput lg = Sinks (errorOutputPathsOf (Logs cfg))"
    by (auto dest: createLogger_base_leaf)
  from a b c d e show ?thesis by blast
qed

text \<open>
  C3 at a configuration with rotation whose configured targets are all files: both lists
  become \<^verbatim>\<open>stderr\<close>, and the assembled logger's base core writes to it.
\<close>

theorem rotation_substitutes_stderr_witness:
  "Rotation (Logs rotationConfig) = Some exampleRotation \<and>
   fst (separateOutputPaths (OutputPaths (Logs rotationConfig))) = [] \<and>
   fst (separateOutputPaths (ErrorOutputPaths (Logs rotationConfig))) = [] \<and>
   outputPathsOf (Logs rotationConfig) = [''stderr''] \<and>
   errorOutputPathsOf (Logs rotationConfig) = [''stderr''] \<and>
   createLogger exampleEnv rotationConfig exampleResource [] =
     ((Some rotationLogger, Some (Shutdown exampleSDK), None), []) \<and>
   fst (snd (snd (hd (localLeaves (core rotationLogger))))) = Sinks [''stderr'']"
proof -
  have rot: "Rotation (Logs rotationConfig) = Some exampleRotation"
    by (simp add: rotationConfig_def)
  have ok: "createLogger exampleEnv rotationConfig exampleResource [] =
     ((Some rotationLogger, Some (Shutdown exampleSDK), None), [])"
    by (simp add: eval_defs)
  have s1: "fst (separateOutputPaths (OutputPaths (Logs rotationConfig))) = []"
    and s2: "fst (separateOutputPaths (ErrorOutputPaths (Logs rotationConfig))) = []"
    by (simp_all add: eval_defs)
  note w = rotation_substitutes_stderr [OF rot, of exampleEnv exampleResource "[]"]
  from w s1 have o1: "outputPathsOf (Logs rotationConfig) = [''stderr'']"
    by simp
  from w s2 have o2: "errorOutputPathsOf (Logs rotationConfig) = [''stderr'']"
    by simp
  from w ok o1 have "fst (snd (snd (hd (localLeaves (core rotationLogger))))) = Sinks [''stderr'']"
    by simp
  with rot ok s1 s2 o1 o2 show ?thesis by blast
qed

text \<open>
  C8, as the code has it: without rotation the configured lists are handed to the base
  logger unchanged (an empty list stays empty); with rotation they are never empty, a list
  with an empty console part being replaced by \<^verbatim>\<open>stderr\<close>. The base core of an
  assembled logger writes to that list.
\<close>

theorem output_paths_by_rotation:
  "(Rotation (Logs cfg) = None \<longrightarrow>
      outputPathsOf (Logs cfg) = OutputPaths (Logs cfg) \<and>
      errorOutputPathsOf (Logs cfg) = ErrorOutputPaths (Logs cfg)) \<and>
   (Rotation (Logs cfg) \<noteq> None \<longrightarrow>
      outputPathsOf (Logs cfg) \<noteq> [] \<and> errorOutputPathsOf (Logs cfg) \<noteq> [] \<and>
      (fst (separateOutputPaths (OutputPaths (Logs cfg))) = [] \<longrightarrow>
         outputPathsOf (Logs cfg) = [''stderr'']) \<and>
      (fst (separateOutputPaths (ErrorOutputPaths (Logs cfg))) = [] \<longrightarrow>
         errorOutputPathsOf (Logs cfg) = [''stderr''])) \<and>
   (\<forall>lg sd er files'.
      createLogger env cfg res files = ((Some lg, sd, er), files') \<longrightarrow>
        fst (snd (snd (hd (localLeaves (core lg))))) = Sinks (outputPathsOf (Logs cfg)) \<and>
        errorOutput lg = Sinks (errorOutputPathsOf (Logs cfg)))"
proof -
  have a: "Rotation (Logs cfg) = None \<longrightarrow>
      outputPathsOf (Logs cfg) = OutputPaths (Logs cfg) \<and>
      errorOutputPathsOf (Logs cfg) = ErrorOutputPaths (Logs cfg)"
    by (auto dest: selectPaths_None)
  have b: "Rotation (Logs cfg) \<noteq> None \<longrightarrow>
      outputPathsOf (Logs cfg) \<noteq> [] \<and> errorOutputPathsOf (Logs cfg) \<noteq> [] \<and>
      (fst (separateOutputPaths (OutputPaths (Logs cfg))) = [] \<longrightarrow>
         outputPathsOf (Logs cfg) = [''stderr'']) \<and>
      (fst (separateOutputPaths (ErrorOutputPaths (Logs cfg))) = [] \<longrightarrow>
         errorOutputPathsOf (Logs cfg) = [''stderr''])"
    by (auto dest!: selectPaths_Some simp: separateOutputPaths_filter split: if_splits)
  have c: "\<forall>lg sd er files'.
      createLogger env cfg res files = ((Some lg, sd, er), files') \<longrightarrow>
        fst (snd (snd (hd (localLeaves (core lg))))) = Sinks (outputPathsOf (Logs cfg)) \<and>
        errorOutput lg = Sinks (errorOutputPathsOf (Logs cfg))"
    by (auto dest: createLogger_base_leaf)
  from a b c show ?thesis by blast
qed

text \<open>
  C8 at a configuration without rotation and with no output path, and at one with
  rotation.
\<close>

theorem output_paths_by_rotation_witness:
  "Rotation (Logs (plainConfig [])) = None \<and>
   outputPathsOf (Logs (plainConfig [])) = [] \<and>
   Rotation (Logs rotationConfig) \<noteq> None \<and>
   outputPathsOf (Logs rotationConfig) = [''stderr'']"
proof -
  have r0: "Rotation (Logs (plainConfig [])) = None"
    and p0: "OutputPaths (Logs (plainConfig [])) = []"
    by (simp_all add: plainConfig_def)
  have r1: "Rotation (Logs rotationConfig) \<noteq> None"
    and s1: "fst (separateOutputPaths (OutputPaths (Logs rotationConfig))) = []"
    by (simp_all add: eval_defs)
  from output_paths_by_rotation [of "plainConfig []" exampleEnv None "[]"] r0 p0
  have a: "outputPathsOf (Logs (plainConfig [])) = []"
    by simp
  from output_paths_by_rotation [of rotationConfig exampleEnv None "[]"] r1 s1
  have b: "outputPathsOf (Logs rotationConfig) = [''stderr'']"
    by simp
  from r0 r1 a b show ?thesis by blast
qed

text \<open>
  C8, as stated, fails: without rotation and with an empty list of output paths the logger
  is assembled, and its base core is built on the empty list; \<^verbatim>\<open>stderr\<close> is not
  substituted.
\<close>

theorem empty_output_paths_counterexample:
  "Rotation (Logs (plainConfig [])) = None \<and>
   OutputPaths (Logs (plainConfig [])) = [] \<and>
   createLogger exampleEnv (plainConfig []) None [] =
     ((Some emptyPathsLogger, Some (Shutdown \<lparr>sdk_resource = None, sdk_processors = []\<rparr>), None), []) \<and>
   fst (snd (snd (hd (localLeaves (core emptyPathsLogger))))) = Sinks []"
  by (simp add: eval_defs emptyPathsLogger_def)

section \<open>The rotation stage\<close>

text \<open>
  C1: with rotation configured, the cores of the error-only rotated destinations are built
  on the fixed level \<^verbatim>\<open>ErrorLevel\<close>, one per durable error path, whatever the
  configured level is: such a core is enabled exactly for levels at or above error, writes
  nothing for an entry below error and writes the entry otherwise.
\<close>

theorem error_rotation_cores_error_only:
  assumes ok: "createLogger env cfg res files = ((Some lg, sd, er), files')"
      and rot: "Rotation (Logs cfg) = Some rot"
  shows "errorFilePathsOf (Logs cfg) = snd (separateOutputPaths (ErrorOutputPaths (Logs cfg))) \<and>
         map (\<lambda>(enc, ctx, ws, enab). (ws, enab)) (errorRotationLeaves (Logs cfg) (core lg)) =
           map (\<lambda>path. (LumberjackLogger path (MaxSizeMB rot) (MaxBackups rot) (MaxAgeDays rot)
                          (Compress rot), ConstLevel ErrorLevel))
             (errorFilePathsOf (Logs cfg)) \<and>
         (\<forall>(enc, ctx, ws, enab) \<in> set (errorRotationLeaves (Logs cfg) (core lg)).
            \<forall>sampled ent fs.
              CoreEnabled (IOCore enc ctx ws enab) (EntryLevel ent) =
                word_sle ErrorLevel (EntryLevel ent) \<and>
              (CoreWrite (IOCore enc ctx ws enab) sampled ent fs :: 'v Output list) =
                (if word_sless (EntryLevel ent) ErrorLevel then []
                 else [Local ws enc ent (ctx @ fs)]))"
proof -
  let ?L = "Logs cfg"
  let ?errLeaf = "\<lambda>path. (rotationEncoder ?L, [] :: Field list,
        LumberjackLogger path (MaxSizeMB rot) (MaxBackups rot) (MaxAgeDays rot) (Compress rot),
        ConstLevel ErrorLevel)"
  have leaves: "errorRotationLeaves ?L (core lg) =
      map (addFields (resourceFields env res)) (map ?errLeaf (errorFilePathsOf ?L))"
    using rot
    by (simp add: errorRotationLeaves_def createLogger_leaves [OF ok] rotationLeaves_def
          drop_map)
  have paths: "errorFilePathsOf ?L = snd (separateOutputPaths (ErrorOutputPaths ?L))"
    using selectPaths_Some [OF rot] by (simp add: separateOutputPaths_filter)
  have sinks: "map (\<lambda>(enc, ctx, ws, enab). (ws, enab)) (errorRotationLeaves ?L (core lg)) =
           map (\<lambda>path. (LumberjackLogger path (MaxSizeMB rot) (MaxBackups rot) (MaxAgeDays rot)
                          (Compress rot), ConstLevel ErrorLevel))
             (errorFilePathsOf ?L)"
    by (simp add: leaves addFields_def comp_def)
  have sem: "\<forall>(enc, ctx, ws, enab) \<in> set (errorRotationLeaves ?L (core lg)).
            \<forall>sampled ent fs.
              CoreEnabled (IOCore enc ctx ws enab) (EntryLevel ent) =
                word_sle ErrorLevel (EntryLevel ent) \<and>
              (CoreWrite (IOCore enc ctx ws enab) sampled ent fs :: 'v Output list) =
                (if word_sless (EntryLevel ent) ErrorLevel then []
                 else [Local ws enc ent (ctx @ fs)])"
    by (auto simp: leaves addFields_def signed.not_less)
  from paths sinks sem show ?thesis by blast
qed

text \<open>
  C1 at a configuration with threshold info and one durable error path: the core of that
  destination has the level enabler \<^verbatim>\<open>ErrorLevel\<close>, drops an info entry and writes an
  error entry.
\<close>

theorem error_rotation_cores_error_only_witness:
  "createLogger exampleEnv rotationConfig exampleResource [] =
     ((Some rotationLogger, Some (Shutdown exampleSDK), None), []) \<and>
   Rotation (Logs rotationConfig) = Some exampleRotation \<and>
   Level (Logs rotationConfig) = InfoLevel \<and>
   errorRotationLeaves (Logs rotationConfig) (core rotationLogger) =
     [(NewJSONEncoder \<lparr>EncodeTime = ISO8601TimeEncoder\<rparr>,
       [zap_Dict ''resource'' [zap_String ''service'' ''x'']],
       LumberjackLogger ''/var/log/app.err.log'' 100 3 28 False, ConstLevel ErrorLevel)] \<and>
   (CoreWrite (IOCore (NewJSONEncoder \<lparr>EncodeTime = ISO8601TimeEncoder\<rparr>)
                 [zap_Dict ''resource'' [zap_String ''service'' ''x'']]
                 (LumberjackLogger ''/var/log/app.err.log'' 100 3 28 False)
                 (ConstLevel ErrorLevel))
      True \<lparr>EntryLevel = InfoLevel, Message = ''started''\<rparr> [] :: string Output list) = [] \<and>
   (CoreWrite (IOCore (NewJSONEncoder \<lparr>EncodeTime = ISO8601TimeEncoder\<rparr>)
                 [zap_Dict ''resource'' [zap_String ''service'' ''x'']]
                 (LumberjackLogger ''/var/log/app.err.log'' 100 3 28 False)
                 (ConstLevel ErrorLevel))
      True \<lparr>EntryLevel = ErrorLevel, Message = ''failed''\<rparr> [] :: string Output list) =
     [Local (LumberjackLogger ''/var/log/app.err.log'' 100 3 28 False)
        (NewJSONEncoder \<lparr>EncodeTime = ISO8601TimeEncoder\<rparr>)
        \<lparr>EntryLevel = ErrorLevel, Message = ''failed''\<rparr>
        [zap_Dict ''resource'' [zap_String ''service'' ''x'']]]"
proof -
  have ok: "createLogger exampleEnv rotationConfig exampleResource [] =
     ((Some rotationLogger, Some (Shutdown exampleSDK), None), [])"
    by (simp add: eval_defs)
  have rot: "Rotation (Logs rotationConfig) = Some exampleRotation"
    by (simp add: rotationConfig_def)
  have lvl: "Level (Logs rotationConfig) = InfoLevel"
    by (simp add: rotationConfig_def)
  have leaves: "errorRotationLeaves (Logs rotationConfig) (core rotationLogger) =
     [(NewJSONEncoder \<lparr>EncodeTime = ISO8601TimeEncoder\<rparr>,
       [zap_Dict ''resource'' [zap_String ''service'' ''x'']],
       LumberjackLogger ''/var/log/app.err.log'' 100 3 28 False, ConstLevel ErrorLevel)]"
    by (simp add: errorRotationLeaves_def filePathsOf_def eval_defs)
  from error_rotation_cores_error_only [OF ok rot, THEN conjunct2, THEN conjunct2]
  have sem: "\<And>sampled ent fs.
      (CoreWrite (IOCore (NewJSONEncoder \<lparr>EncodeTime = ISO8601TimeEncoder\<rparr>)
                 [zap_Dict ''resource'' [zap_String ''service'' ''x'']]
                 (LumberjackLogger ''/var/log/app.err.log'' 100 3 28 False)
                 (ConstLevel ErrorLevel)) sampled ent fs :: string Output list) =
      (if word_sless (EntryLevel ent) ErrorLevel then []
       else [Local (LumberjackLogger ''/var/log/app.err.log'' 100 3 28 False)
               (NewJSONEncoder \<lparr>EncodeTime = ISO8601TimeEncoder\<rparr>) ent
               ([zap_Dict ''resource'' [zap_String ''service'' ''x'']] @ fs)])"
    unfolding leaves by (simp add: signed.not_le)
  have info: "word_sless (EntryLevel \<lparr>EntryLevel = InfoLevel, Message = ''started''\<rparr>) ErrorLevel"
    by (simp add: InfoLevel_def ErrorLevel_def word_sless_alt)
  have err: "\<not> word_sless (EntryLevel \<lparr>EntryLevel = ErrorLevel, Message = ''failed''\<rparr>) ErrorLevel"
    by simp
  from sem [of True "\<lparr>EntryLevel = InfoLevel, Message = ''started''\<rparr>" "[]"] info
  have w1: "(CoreWrite (IOCore (NewJSONEncoder \<lparr>EncodeTime = ISO8601TimeEncoder\<rparr>)
                 [zap_Dict ''resource'' [zap_String ''service'' ''x'']]
                 (LumberjackLogger ''/var/log/app.err.log'' 100 3 28 False)
                 (ConstLevel ErrorLevel))
      True \<lparr>EntryLevel = InfoLevel, Message = ''started''\<rparr> [] :: string Output list) = []"
    by simp
  from sem [of True "\<lparr>EntryLevel = ErrorLevel, Message = ''failed''\<rparr>" "[]"] err
  have w2: "(CoreWrite (IOCore (NewJSONEncoder \<lparr>EncodeTime = ISO8601TimeEncoder\<rparr>)
                 [zap_Dict ''resource'' [zap_String ''service'' ''x'']]
                 (LumberjackLogger ''/var/log/app.err.log'' 100 3 28 False)
                 (ConstLevel ErrorLevel))
      True \<lparr>EntryLevel = ErrorLevel, Message = ''failed''\<rparr> [] :: string Output list) =
     [Local (LumberjackLogger ''/var/log/app.err.log'' 100 3 28 False)
        (NewJSONEncoder \<lparr>EncodeTime = ISO8601TimeEncoder\<rparr>)
        \<lparr>EntryLevel = ErrorLevel, Message = ''failed''\<rparr>
        [zap_Dict ''resource'' [zap_String ''service'' ''x'']]]"
    by simp
  from ok rot lvl leaves w1 w2 show ?thesis by blast
qed

text \<open>
  C9: in an assembled logger the encoder of every rotation core is the encoder the base
  core was built with: the JSON encoder for the encoding \<^verbatim>\<open>json\<close>, the console encoder
  for \<^verbatim>\<open>console\<close>, over the same encoder configuration. (The base logger is only built
  for these two encodings.)
\<close>

theorem rotation_encoder_matches_base:
  assumes ok: "createLogger env cfg res files = ((Some lg, sd, er), files')"
  shows "\<exists>enc. buildEncoder (zapConfigOf (Logs cfg)) = Inr enc \<and>
           map fst (localLeaves (core lg)) =
             enc # map (\<lambda>p. enc) (filePathsOf (Logs cfg) @ errorFilePathsOf (Logs cfg)) \<and>
           enc = (if Encoding (Logs cfg) = ''json''
                  then NewJSONEncoder \<lparr>EncodeTime = ISO8601TimeEncoder\<rparr>
                  else NewConsoleEncoder \<lparr>EncodeTime = ISO8601TimeEncoder\<rparr>) \<and>
           (Encoding (Logs cfg) = ''json'' \<or> Encoding (Logs cfg) = ''console'')"
proof -
  from createLogger_Some [OF ok] obtain base sdk where
    b: "Build env (zapConfigOf (Logs cfg)) files = (Inr base, files')"
    by blast
  from Build_Inr [OF b] obtain enc where
    e: "buildEncoder (zapConfigOf (Logs cfg)) = Inr enc"
    by blast
  from buildEncoder_rotationEncoder [OF e] have r: "enc = rotationEncoder (Logs cfg)" .
  have l: "map fst (localLeaves (core lg)) =
             enc # map (\<lambda>p. enc) (filePathsOf (Logs cfg) @ errorFilePathsOf (Logs cfg))"
    unfolding createLogger_leaves [OF ok] map_fst_addFields
    by (simp add: rotationLeaves_encoders r)
  from e have n: "Encoding (Logs cfg) = ''json'' \<or> Encoding (Logs cfg) = ''console''"
    by (auto simp: buildEncoder_def zapConfigOf_simps split: if_splits)
  from e l r n show ?thesis
    by (auto simp: rotationEncoder_def)
qed

text \<open>
  C9 at the JSON configuration with one durable path in each list.
\<close>

theorem rotation_encoder_matches_base_witness:
  "createLogger exampleEnv rotationConfig exampleResource [] =
     ((Some rotationLogger, Some (Shutdown exampleSDK), None), []) \<and>
   buildEncoder (zapConfigOf (Logs rotationConfig)) =
     Inr (NewJSONEncoder \<lparr>EncodeTime = ISO8601TimeEncoder\<rparr>) \<and>
   map fst (localLeaves (core rotationLogger)) =
     [NewJSONEncoder \<lparr>EncodeTime = ISO8601TimeEncoder\<rparr>,
      NewJSONEncoder \<lparr>EncodeTime = ISO8601TimeEncoder\<rparr>,
      NewJSONEncoder \<lparr>EncodeTime = ISO8601TimeEncoder\<rparr>]"
proof -
  have ok: "createLogger exampleEnv rotationConfig exampleResource [] =
     ((Some rotationLogger, Some (Shutdown exampleSDK), None), [])"
    by (simp add: eval_defs)
  have enc: "Encoding (Logs rotationConfig) = ''json''"
    by (simp add: rotationConfig_def)
  have fp: "filePathsOf (Logs rotationConfig) = [''/var/log/app.log'']"
    and efp: "errorFilePathsOf (Logs rotationConfig) = [''/var/log/app.err.log'']"
    by (simp_all add: filePathsOf_def errorFilePathsOf_def eval_defs)
  from rotation_encoder_matches_base [OF ok]
  have "buildEncoder (zapConfigOf (Logs rotationConfig)) =
     Inr (NewJSONEncoder \<lparr>EncodeTime = ISO8601TimeEncoder\<rparr>) \<and>
   map fst (localLeaves (core rotationLogger)) =
     [NewJSONEncoder \<lparr>EncodeTime = ISO8601TimeEncoder\<rparr>,
      NewJSONEncoder \<lparr>EncodeTime = ISO8601TimeEncoder\<rparr>,
      NewJSONEncoder \<lparr>EncodeTime = ISO8601TimeEncoder\<rparr>]"
    by (auto simp: enc fp efp)
  with ok show ?thesis by blast
qed

text \<open>
  C10: with rotation configured, the file paths are the durable parts of the two lists. If
  both are empty the rotation stage leaves the base core as it is (no fan-out, no rotating
  sink: the logger writes to the console targets only); otherwise the base core is wrapped
  in a fan-out with one rotating sink per durable path.
\<close>

theorem rotation_applied_iff_durable:
  assumes ok: "createLogger env cfg res files = ((Some lg, sd, er), files')"
      and rot: "Rotation (Logs cfg) = Some rot"
  shows "filePathsOf (Logs cfg) = snd (separateOutputPaths (OutputPaths (Logs cfg))) \<and>
         errorFilePathsOf (Logs cfg) = snd (separateOutputPaths (ErrorOutputPaths (Logs cfg))) \<and>
         (\<exists>base sdk.
            Build env (zapConfigOf (Logs cfg)) files = (Inr base, files') \<and>
            newSDK env res (Processors (Logs cfg)) = Inr sdk \<and>
            (if filePathsOf (Logs cfg) = [] \<and> errorFilePathsOf (Logs cfg) = []
             then core lg = exportStage sdk (samplingStage (Logs cfg)
                              (resourceStage env res (core base))) \<and>
                  map (\<lambda>(enc, ctx, ws, enab). ws) (localLeaves (core lg)) =
                    [Sinks (outputPathsOf (Logs cfg))]
             else core lg = exportStage sdk (samplingStage (Logs cfg)
                              (resourceStage env res
                                 (MultiCore (core base #
                                    map (\<lambda>path. IOCore (rotationEncoder (Logs cfg)) []
                                           (LumberjackLogger path (MaxSizeMB rot) (MaxBackups rot)
                                              (MaxAgeDays rot) (Compress rot))
                                           (AtomicLevel (Level (Logs cfg))))
                                      (filePathsOf (Logs cfg)) @
                                    map (\<lambda>path. IOCore (rotationEncoder (Logs cfg)) []
                                           (LumberjackLogger path (MaxSizeMB rot) (MaxBackups rot)
                                              (MaxAgeDays rot) (Compress rot))
                                           (ConstLevel ErrorLevel))
                                      (errorFilePathsOf (Logs cfg)))))) \<and>
                  map (\<lambda>(enc, ctx, ws, enab). ws) (localLeaves (core lg)) =
                    Sinks (outputPathsOf (Logs cfg)) #
                    map (\<lambda>path. LumberjackLogger path (MaxSizeMB rot) (MaxBackups rot)
                                  (MaxAgeDays rot) (Compress rot))
                      (filePathsOf (Logs cfg) @ errorFilePathsOf (Logs cfg))))"
proof -
  let ?L = "Logs cfg"
  from createLogger_Some [OF ok] obtain base sdk where
    b: "Build env (zapConfigOf ?L) files = (Inr base, files')" and
    s: "newSDK env res (Processors ?L) = Inr sdk" and
    c: "core lg = exportStage sdk (samplingStage ?L
                       (resourceStage env res (rotationStage ?L (core base))))"
    by blast
  have p: "filePathsOf ?L = snd (separateOutputPaths (OutputPaths ?L))"
          "errorFilePathsOf ?L = snd (separateOutputPaths (ErrorOutputPaths ?L))"
    using selectPaths_Some [OF rot] by (simp_all add: separateOutputPaths_filter)
  have sinks: "map (\<lambda>(enc, ctx, ws, enab). ws) (localLeaves (core lg)) =
      Sinks (outputPathsOf ?L) #
      map (\<lambda>path. LumberjackLogger path (MaxSizeMB rot) (MaxBackups rot)
                    (MaxAgeDays rot) (Compress rot))
        (filePathsOf ?L @ errorFilePathsOf ?L)"
    using rot
    by (simp add: createLogger_leaves [OF ok] rotationLeaves_def addFields_def comp_def)
  have stage: "rotationStage ?L (core base) =
      (if filePathsOf ?L = [] \<and> errorFilePathsOf ?L = [] then core base
       else MultiCore (core base #
              map (\<lambda>path. IOCore (rotationEncoder ?L) []
                     (LumberjackLogger path (MaxSizeMB rot) (MaxBackups rot)
                        (MaxAgeDays rot) (Compress rot))
                     (AtomicLevel (Level ?L))) (filePathsOf ?L) @
              map (\<lambda>path. IOCore (rotationEncoder ?L) []
                     (LumberjackLogger path (MaxSizeMB rot) (MaxBackups rot)
                        (MaxAgeDays rot) (Compress rot))
                     (ConstLevel ErrorLevel)) (errorFilePathsOf ?L)))"
    using rot
    by (auto simp: rotationStage_def rotationCore_MultiCore zapConfigOf_simps rotationEncoder_def)
  have body:
    "(if filePathsOf ?L = [] \<and> errorFilePathsOf ?L = []
      then core lg = exportStage sdk (samplingStage ?L (resourceStage env res (core base))) \<and>
           map (\<lambda>(enc, ctx, ws, enab). ws) (localLeaves (core lg)) = [Sinks (outputPathsOf ?L)]
      else core lg = exportStage sdk (samplingStage ?L
                       (resourceStage env res
                          (MultiCore (core base #
                             map (\<lambda>path. IOCore (rotationEncoder ?L) []
                                    (LumberjackLogger path (MaxSizeMB rot) (MaxBackups rot)
                                       (MaxAgeDays rot) (Compress rot))
                                    (AtomicLevel (Level ?L)))
                               (filePathsOf ?L) @
                             map (\<lambda>path. IOCore (rotationEncoder ?L) []
                                    (LumberjackLogger path (MaxSizeMB rot) (MaxBackups rot)
                                       (MaxAgeDays rot) (Compress rot))
                                    (ConstLevel ErrorLevel))
                               (errorFilePathsOf ?L))))) \<and>
           map (\<lambda>(enc, ctx, ws, enab). ws) (localLeaves (core lg)) =
             Sinks (outputPathsOf ?L) #
             map (\<lambda>path. LumberjackLogger path (MaxSizeMB rot) (MaxBackups rot)
                           (MaxAgeDays rot) (Compress rot))
               (filePathsOf ?L @ errorFilePathsOf ?L))"
  proof (cases "filePathsOf ?L = [] \<and> errorFilePathsOf ?L = []")
    case True
    have c1: "core lg = exportStage sdk (samplingStage ?L (resourceStage env res (core base)))"
      unfolding c stage if_P [OF True] ..
    have s1: "map (\<lambda>(enc, ctx, ws, enab). ws) (localLeaves (core lg)) = [Sinks (outputPathsOf ?L)]"
      using sinks True by simp
    from c1 s1 show ?thesis
      unfolding if_P [OF True] by (rule conjI)
  next
    case False
    have c2: "core lg = exportStage sdk (samplingStage ?L
                       (resourceStage env res
                          (MultiCore (core base #
                             map (\<lambda>path. IOCore (rotationEncoder ?L) []
                                    (LumberjackLogger path (MaxSizeMB rot) (MaxBackups rot)
                                       (MaxAgeDays rot) (Compress rot))
                                    (AtomicLevel (Level ?L)))
                               (filePathsOf ?L) @
                             map (\<lambda>path. IOCore (rotationEncoder ?L) []
                                    (LumberjackLogger path (MaxSizeMB rot) (MaxBackups rot)
                                       (MaxAgeDays rot) (Compress rot))
                                    (ConstLevel ErrorLevel))
                               (errorFilePathsOf ?L)))))"
      unfolding c stage if_not_P [OF False] ..
    from c2 sinks show ?thesis
      unfolding if_not_P [OF False] by (rule conjI)
  qed
  from p b s body show ?thesis
    by blast
qed

text \<open>
  C10 at a configuration with rotation whose targets are all console streams.
\<close>

theorem rotation_applied_iff_durable_witness:
  "createLogger exampleEnv consoleOnlyConfig exampleResource [] =
     ((Some consoleOnlyLogger, Some (Shutdown exampleSDK), None), []) \<and>
   Rotation (Logs consoleOnlyConfig) = Some exampleRotation \<and>
   filePathsOf (Logs consoleOnlyConfig) = [] \<and>
   errorFilePathsOf (Logs consoleOnlyConfig) = [] \<and>
   map (\<lambda>(enc, ctx, ws, enab). ws) (localLeaves (core consoleOnlyLogger)) = [Sinks [''stdout'']]"
proof -
  have ok: "createLogger exampleEnv consoleOnlyConfig exampleResource [] =
     ((Some consoleOnlyLogger, Some (Shutdown exampleSDK), None), [])"
    by (simp add: eval_defs)
  have rot: "Rotation (Logs consoleOnlyConfig) = Some exampleRotation"
    by (simp add: consoleOnlyConfig_def)
  have fp: "filePathsOf (Logs consoleOnlyConfig) = []"
    and efp: "errorFilePathsOf (Logs consoleOnlyConfig) = []"
    and op: "outputPathsOf (Logs consoleOnlyConfig) = [''stdout'']"
    by (simp_all add: filePathsOf_def errorFilePathsOf_def outputPathsOf_def eval_defs)
  from rotation_applied_iff_durable [OF ok rot]
  have "map (\<lambda>(enc, ctx, ws, enab). ws) (localLeaves (core consoleOnlyLogger)) = [Sinks [''stdout'']]"
    by (auto simp: fp efp op)
  with ok rot fp efp show ?thesis by blast
qed

section \<open>The resource stage\<close>



section \<open>The order of the stages\<close>

text \<open>
  C6: an assembled logger's core is the dual-export tee around the sampling stage around
  the resource stage around the rotation stage around the core of the base logger, the
  base logger being built from the classified target lists; with sampling enabled the
  sampler encloses the attribute-injected core.
\<close>

theorem createLogger_stage_order:
  assumes ok: "createLogger env cfg res files = ((Some lg, sd, er), files')"
  shows "\<exists>base sdk.
           Build env (makeZapConfig (Logs cfg) (fst (selectPaths (Logs cfg)))
                        (fst (snd (selectPaths (Logs cfg))))) files = (Inr base, files') \<and>
           newSDK env res (Processors (Logs cfg)) = Inr sdk \<and>
           core lg = exportStage sdk (samplingStage (Logs cfg)
                       (resourceStage env res (rotationStage (Logs cfg) (core base)))) \<and>
           sd = Some (Shutdown sdk) \<and> er = None \<and>
           (\<forall>s. Sampling (Logs cfg) = Some s \<and> Enabled s \<longrightarrow>
              core lg =
                NewOTelTeeCoreWithAttributes
                  (NewConsoleCoreWithAttributes
                     (Sampler (resourceStage env res (rotationStage (Logs cfg) (core base)))
                        (Tick s) (Initial s) (Thereafter s)) [])
                  (LoggerProvider sdk) ''go.opentelemetry.io/collector/service'' [])"
proof -
  from createLogger_Some [OF ok] obtain base sdk where
    b: "Build env (zapConfigOf (Logs cfg)) files = (Inr base, files')" and
    s: "newSDK env res (Processors (Logs cfg)) = Inr sdk" and
    c: "core lg = exportStage sdk (samplingStage (Logs cfg)
                       (resourceStage env res (rotationStage (Logs cfg) (core base))))" and
    r: "sd = Some (Shutdown sdk)" "er = None"
    by blast
  have z: "zapConfigOf (Logs cfg) =
             makeZapConfig (Logs cfg) (fst (selectPaths (Logs cfg)))
               (fst (snd (selectPaths (Logs cfg))))"
    by (simp add: zapConfigOf_def outputPathsOf_def errorOutputPathsOf_def)
  have "\<forall>s. Sampling (Logs cfg) = Some s \<and> Enabled s \<longrightarrow>
              core lg =
                NewOTelTeeCoreWithAttributes
                  (NewConsoleCoreWithAttributes
                     (Sampler (resourceStage env res (rotationStage (Logs cfg) (core base)))
                        (Tick s) (Initial s) (Thereafter s)) [])
                  (LoggerProvider sdk) ''go.opentelemetry.io/collector/service'' []"
    by (simp add: c exportStage_def samplingStage_def NewSamplerWithOptions_def)
  with b s c r show ?thesis
    unfolding z by blast
qed

text \<open>
  C6 at a configuration with rotation, resource attributes and sampling.
\<close>

theorem createLogger_stage_order_witness:
  "createLogger exampleEnv rotationConfig exampleResource [] =
     ((Some rotationLogger, Some (Shutdown exampleSDK), None), []) \<and>
   (\<exists>base. core rotationLogger =
      exportStage exampleSDK (samplingStage (Logs rotationConfig)
        (resourceStage exampleEnv exampleResource (rotationStage (Logs rotationConfig) base))))"
proof -
  have ok: "createLogger exampleEnv rotationConfig exampleResource [] =
     ((Some rotationLogger, Some (Shutdown exampleSDK), None), [])"
    by (simp add: eval_defs)
  from createLogger_stage_order [OF ok]
  have "\<exists>base. core rotationLogger =
      exportStage exampleSDK (samplingStage (Logs rotationConfig)
        (resourceStage exampleEnv exampleResource (rotationStage (Logs rotationConfig) base)))"
    by auto
  with ok show ?thesis by blast
qed

section \<open>Failure of the export SDK\<close>

text \<open>
  C7, as the code has it: if the base logger was built and the SDK cannot be constructed,
  \<^verbatim>\<open>createLogger\<close> returns the SDK's error with no logger and no shutdown function,
  and closes nothing: the destinations the base logger opened are still open.
\<close>

theorem sdk_failure_returns_error:
  assumes build: "Build env (zapConfigOf (Logs cfg)) files = (Inr base, files1)"
      and sdk: "sdkFailure env (Processors (Logs cfg)) = Some err"
  shows "createLogger env cfg res files = ((None, None, Some err), files1) \<and>
         files1 = files @ filter opensFile (outputPathsOf (Logs cfg)) @
                    filter opensFile (errorOutputPathsOf (Logs cfg))"
  using Build_Inr [OF build] build sdk
  by (auto simp: createLogger_unfold newSDK_def zapConfigOf_simps)

text \<open>
  C7 at a configuration without rotation, with the output path \<^verbatim>\<open>/var/log/app.log\<close>
  and a processor the SDK rejects.
\<close>

theorem sdk_failure_returns_error_witness:
  "Build failingSDKEnv (zapConfigOf (Logs invalidProcessorConfig)) [] =
     (Inr plainBaseLogger, [''/var/log/app.log'']) \<and>
   sdkFailure failingSDKEnv (Processors (Logs invalidProcessorConfig)) =
     Some (SDKError ''invalid processor'') \<and>
   createLogger failingSDKEnv invalidProcessorConfig exampleResource [] =
     ((None, None, Some (SDKError ''invalid processor'')), [''/var/log/app.log''])"
proof -
  have b: "Build failingSDKEnv (zapConfigOf (Logs invalidProcessorConfig)) [] =
     (Inr plainBaseLogger, [''/var/log/app.log''])"
    by (simp add: zapConfigOf_def outputPathsOf_def errorOutputPathsOf_def eval_defs)
  have s: "sdkFailure failingSDKEnv (Processors (Logs invalidProcessorConfig)) =
     Some (SDKError ''invalid processor'')"
    by (simp add: failingSDKEnv_def invalidProcessorConfig_def)
  from sdk_failure_returns_error [OF b s, of exampleResource] b s show ?thesis
    by blast
qed

text \<open>
  C7, as stated, fails: with the output path \<^verbatim>\<open>/var/log/app.log\<close> and a processor
  the SDK rejects, the error is returned and the file is left open.
\<close>

theorem sdk_failure_leaves_file_open_counterexample:
  "sdkFailure failingSDKEnv (Processors (Logs invalidProcessorConfig)) =
     Some (SDKError ''invalid processor'') \<and>
   createLogger failingSDKEnv invalidProcessorConfig None [] =
     ((None, None, Some (SDKError ''invalid processor'')), [''/var/log/app.log''])"
  by (simp add: eval_defs)

end
